theory Spec2Isabelle
  imports Complex_Main "HOL-Library.Sublist" "HOL-Library.Multiset"
begin

section \<open>Exceptions\<close>

text \<open>
  Every exception the modelled code can meet is a value of \<open>exc\<close>; a function that can
  raise returns \<open>exc + 'a\<close> with \<open>Inl\<close> for the raised exception.
  \<^item> \<open>OperationalError\<close>, \<open>IntegrityError\<close>: raised by sqlite3;
  \<^item> \<open>OverflowError\<close>: raised by sqlite3 when a Python \<open>int\<close> bound to a \<open>?\<close> does not
    fit SQLite's 64-bit integer;
  \<^item> \<open>ValidationError\<close>: raised by a pydantic model whose field constraint fails;
  \<^item> \<open>APITimeoutError\<close>, \<open>APIConnectionError\<close>: the two openai exceptions named in the
    retry predicate of \<open>chat_completion\<close>; \<open>APIStatusError\<close> stands for every other
    \<open>openai.APIError\<close>;
  \<^item> \<open>OtherException\<close>: any other subclass of \<open>Exception\<close>;
  \<^item> \<open>RetryError e\<close>: tenacity's exception, wrapping the exception of the last attempt.
\<close>

datatype exc =
    OperationalError
  | IntegrityError
  | OverflowError
  | ValidationError
  | APITimeoutError
  | APIConnectionError
  | APIStatusError
  | OtherException
  | RetryError exc

section \<open>Storage: \<open>backend/storage/models.py\<close> and \<open>backend/storage/db.py\<close>\<close>

subsection \<open>Rows and tables\<close>

text \<open>
  A \<open>datetime\<close> is a reading of the wall clock (\<open>datetime.now()\<close>), counted in
  microseconds. Each element of a \<open>string\<close> stands for one character of a Python \<open>str\<close>.
  The tables keep their rows in rowid order. \<open>chats_seq\<close> and \<open>messages_seq\<close> are the
  \<open>AUTOINCREMENT\<close> counters of the two tables: the largest rowid the table has used so
  far, so that a new row gets the next one and no rowid is used twice.
\<close>

type_synonym datetime = int

record chat_row =
  c_id :: int
  c_user_id :: "string option"
  c_title :: string
  c_created_at :: datetime
  c_updated_at :: datetime

record message_row =
  m_id :: int
  m_chat_id :: int
  m_role :: string
  m_content :: string
  m_timestamp :: datetime

record database =
  chats :: "chat_row list"
  messages :: "message_row list"
  chats_seq :: int
  messages_seq :: int

subsection \<open>Connections and transactions\<close>

text \<open>
  \<open>aiosqlite.connect\<close> opens a connection of Python's sqlite3 module. Statements that
  write run inside one implicit transaction, \<open>commit\<close> makes its writes durable, and
  leaving the \<open>async with\<close> block closes the connection, which drops whatever was not
  committed. SQLite enforces foreign keys only on a connection that has executed
  \<open>PRAGMA foreign_keys = ON\<close>; no statement of \<open>db.py\<close> does, so every connection
  starts, and stays, with \<open>foreign_keys = False\<close>.
\<close>

record connection =
  stored :: database
  pending :: database
  foreign_keys :: bool

definition connect :: "database \<Rightarrow> connection" where
  "connect db = \<lparr>stored = db, pending = db, foreign_keys = False\<rparr>"

definition commit :: "connection \<Rightarrow> connection" where
  "commit cn = cn\<lparr>stored := pending cn\<rparr>"

definition close :: "connection \<Rightarrow> database" where
  "close cn = stored cn"

text \<open>
  A \<open>fault\<close> describes what the storage engine does to one operation: \<open>None\<close> lets
  every call through, \<open>Some (k, e)\<close> makes the \<open>k\<close>-th call of the operation raise \<open>e\<close>
  (call 0 is \<open>connect\<close>, the following ones are the \<open>execute\<close> and \<open>commit\<close> calls in
  source order).
\<close>

type_synonym fault = "(nat \<times> exc) option"

definition raises :: "fault \<Rightarrow> nat \<Rightarrow> exc option" where
  "raises f k = (case f of None \<Rightarrow> None | Some (j, e) \<Rightarrow> if j = k then Some e else None)"

text \<open>
  An \<open>execute\<close> call binds its parameters before the statement runs. A Python \<open>int\<close>
  outside the range of a signed 64-bit integer cannot be bound: the call raises
  \<open>OverflowError\<close> and the statement does not run.
\<close>

definition sqlite_integer :: "int \<Rightarrow> bool" where
  "sqlite_integer i = (- (2 ^ 63) \<le> i \<and> i < 2 ^ 63)"

subsection \<open>The SQL statements\<close>

text \<open>
  \<open>ORDER BY\<close> runs SQLite's sorter over the rows in the order the scan delivers them
  (rowid order); rows with equal keys keep that order, ascending and descending alike.
  \<open>LIMIT\<close> with a negative count means no limit, \<open>OFFSET\<close> with a negative count means
  no offset.
\<close>

definition order_by_asc :: "('a \<Rightarrow> int) \<Rightarrow> 'a list \<Rightarrow> 'a list" where
  "order_by_asc key rows = sort_key key rows"

definition order_by_desc :: "('a \<Rightarrow> int) \<Rightarrow> 'a list \<Rightarrow> 'a list" where
  "order_by_desc key rows = sort_key (\<lambda>r. - key r) rows"

definition limit :: "int \<Rightarrow> 'a list \<Rightarrow> 'a list" where
  "limit n rows = (if n < 0 then rows else take (nat n) rows)"

definition offset :: "int \<Rightarrow> 'a list \<Rightarrow> 'a list" where
  "offset k rows = (if k < 0 then rows else drop (nat k) rows)"

text \<open>\<open>INSERT INTO chats (user_id, title, created_at, updated_at) VALUES (?, ?, ?, ?)\<close>\<close>

definition insert_chat ::
  "string option \<Rightarrow> string \<Rightarrow> datetime \<Rightarrow> datetime \<Rightarrow> connection \<Rightarrow> int \<times> connection" where
  "insert_chat user_id title created updated cn =
     (let db = pending cn;
          new_id = chats_seq db + 1;
          row = \<lparr>c_id = new_id, c_user_id = user_id, c_title = title,
                 c_created_at = created, c_updated_at = updated\<rparr>
      in (new_id, cn\<lparr>pending := db\<lparr>chats := chats db @ [row], chats_seq := new_id\<rparr>\<rparr>))"

text \<open>
  \<open>INSERT INTO messages (chat_id, role, content, timestamp) VALUES (?, ?, ?, ?)\<close>.
  The table declares \<open>FOREIGN KEY (chat_id) REFERENCES chats (id)\<close>, checked only on a
  connection that enforces foreign keys.
\<close>

definition insert_message ::
  "int \<Rightarrow> string \<Rightarrow> string \<Rightarrow> datetime \<Rightarrow> connection \<Rightarrow> exc + (int \<times> connection)" where
  "insert_message chat_id role content now cn =
     (let db = pending cn;
          new_id = messages_seq db + 1;
          row = \<lparr>m_id = new_id, m_chat_id = chat_id, m_role = role,
                 m_content = content, m_timestamp = now\<rparr>
      in if foreign_keys cn \<and> chat_id \<notin> set (map c_id (chats db)) then Inl IntegrityError
         else Inr (new_id,
                   cn\<lparr>pending := db\<lparr>messages := messages db @ [row], messages_seq := new_id\<rparr>\<rparr>))"

text \<open>\<open>UPDATE chats SET updated_at = ? WHERE id = ?\<close>\<close>

definition update_chat_updated_at :: "datetime \<Rightarrow> int \<Rightarrow> connection \<Rightarrow> connection" where
  "update_chat_updated_at now chat_id cn =
     (let db = pending cn
      in cn\<lparr>pending :=
              db\<lparr>chats := map (\<lambda>c. if c_id c = chat_id then c\<lparr>c_updated_at := now\<rparr> else c)
                               (chats db)\<rparr>\<rparr>)"

text \<open>
  \<open>DELETE FROM chats WHERE id = ?\<close>, returning the cursor's \<open>rowcount\<close>. The
  \<open>ON DELETE CASCADE\<close> of the messages table fires only on a connection that enforces
  foreign keys.
\<close>

definition delete_chat_rows :: "int \<Rightarrow> connection \<Rightarrow> nat \<times> connection" where
  "delete_chat_rows chat_id cn =
     (let db = pending cn;
          rowcount = length (filter (\<lambda>c. c_id c = chat_id) (chats db));
          db1 = db\<lparr>chats := filter (\<lambda>c. c_id c \<noteq> chat_id) (chats db)\<rparr>;
          db2 = (if foreign_keys cn \<and> 0 < rowcount
                 then db1\<lparr>messages := filter (\<lambda>m. m_chat_id m \<noteq> chat_id) (messages db1)\<rparr>
                 else db1)
      in (rowcount, cn\<lparr>pending := db2\<rparr>))"

text \<open>\<open>SELECT ... FROM chats WHERE id = ?\<close> followed by \<open>fetchone\<close>\<close>

definition select_chat :: "int \<Rightarrow> connection \<Rightarrow> chat_row option" where
  "select_chat chat_id cn =
     (case filter (\<lambda>c. c_id c = chat_id) (chats (pending cn)) of
        [] \<Rightarrow> None
      | row # _ \<Rightarrow> Some row)"

text \<open>\<open>SELECT ... FROM messages WHERE chat_id = ? ORDER BY timestamp ASC\<close>\<close>

definition select_messages_asc :: "int \<Rightarrow> connection \<Rightarrow> message_row list" where
  "select_messages_asc chat_id cn =
     order_by_asc m_timestamp (filter (\<lambda>m. m_chat_id m = chat_id) (messages (pending cn)))"

text \<open>\<open>SELECT ... FROM messages WHERE chat_id = ? ORDER BY timestamp DESC LIMIT ?\<close>\<close>

definition select_messages_desc_limit :: "int \<Rightarrow> int \<Rightarrow> connection \<Rightarrow> message_row list" where
  "select_messages_desc_limit chat_id n cn =
     limit n (order_by_desc m_timestamp
                (filter (\<lambda>m. m_chat_id m = chat_id) (messages (pending cn))))"

subsection \<open>The pydantic models\<close>

text \<open>
  \<open>Message\<close> constrains \<open>role\<close> by the pattern \<open>^(user|assistant)$\<close> and \<open>content\<close> by
  \<open>min_length=1\<close>: constructing one from other values raises \<open>ValidationError\<close>.
  \<open>Chat\<close> constrains nothing.
\<close>

record Message =
  msg_id :: "int option"
  msg_chat_id :: "int option"
  msg_role :: string
  msg_content :: string
  msg_timestamp :: datetime

record Chat =
  chat_id_of :: "int option"
  chat_user_id :: "string option"
  chat_title :: string
  chat_created_at :: datetime
  chat_updated_at :: datetime
  chat_messages :: "Message list"

definition new_Message ::
  "int option \<Rightarrow> int option \<Rightarrow> string \<Rightarrow> string \<Rightarrow> datetime \<Rightarrow> exc + Message" where
  "new_Message i c role content ts =
     (if (role = ''user'' \<or> role = ''assistant'') \<and> 1 \<le> length content
      then Inr \<lparr>msg_id = i, msg_chat_id = c, msg_role = role, msg_content = content,
                msg_timestamp = ts\<rparr>
      else Inl ValidationError)"

text \<open>
  The list comprehension \<open>[Message(id=row['id'], ...) for row in rows]\<close>: the first row
  that fails validation raises.
\<close>

fun rows_to_messages :: "message_row list \<Rightarrow> exc + Message list" where
  "rows_to_messages [] = Inr []"
| "rows_to_messages (row # rows) =
     (case new_Message (Some (m_id row)) (Some (m_chat_id row)) (m_role row) (m_content row)
             (m_timestamp row) of
        Inl e \<Rightarrow> Inl e
      | Inr m \<Rightarrow> (case rows_to_messages rows of
                    Inl e \<Rightarrow> Inl e
                  | Inr ms \<Rightarrow> Inr (m # ms)))"

subsection \<open>The operations of \<open>Database\<close>\<close>

text \<open>
  Each operation takes the fault of the storage engine and the database file, and returns
  what the Python method returns or raises, together with the database file afterwards
  where the method writes. \<open>now\<close> is the method's reading of \<open>datetime.now()\<close>. Where the
  engine lets an \<open>execute\<close> call through, its integer parameters are bound first.
\<close>

definition create_chat ::
  "fault \<Rightarrow> datetime \<Rightarrow> string option \<Rightarrow> string \<Rightarrow> database \<Rightarrow> (exc + int) \<times> database" where
  "create_chat f now user_id title db =
     (case raises f 0 of Some e \<Rightarrow> (Inl e, db) | None \<Rightarrow>
     (let cn = connect db in
     (case raises f 1 of Some e \<Rightarrow> (Inl e, close cn) | None \<Rightarrow>
     (case insert_chat user_id title now now cn of (chat_id, cn) \<Rightarrow>
     (case raises f 2 of Some e \<Rightarrow> (Inl e, close cn) | None \<Rightarrow>
     (let cn = commit cn in
      (Inr chat_id, close cn)))))))"

definition save_message ::
  "fault \<Rightarrow> datetime \<Rightarrow> int \<Rightarrow> string \<Rightarrow> string \<Rightarrow> database \<Rightarrow> (exc + int) \<times> database" where
  "save_message f now chat_id role content db =
     (case raises f 0 of Some e \<Rightarrow> (Inl e, db) | None \<Rightarrow>
     (let cn = connect db in
     (case raises f 1 of Some e \<Rightarrow> (Inl e, close cn) | None \<Rightarrow>
     (if \<not> sqlite_integer chat_id then (Inl OverflowError, close cn) else
     (case insert_message chat_id role content now cn of
        Inl e \<Rightarrow> (Inl e, close cn)
      | Inr (message_id, cn) \<Rightarrow>
     (case raises f 2 of Some e \<Rightarrow> (Inl e, close cn) | None \<Rightarrow>
     (let cn = update_chat_updated_at now chat_id cn in
     (case raises f 3 of Some e \<Rightarrow> (Inl e, close cn) | None \<Rightarrow>
     (let cn = commit cn in
      (Inr message_id, close cn))))))))))"

definition get_chat :: "fault \<Rightarrow> int \<Rightarrow> database \<Rightarrow> exc + Chat option" where
  "get_chat f chat_id db =
     (case raises f 0 of Some e \<Rightarrow> Inl e | None \<Rightarrow>
     (let cn = connect db in
     (case raises f 1 of Some e \<Rightarrow> Inl e | None \<Rightarrow>
     (if \<not> sqlite_integer chat_id then Inl OverflowError else
     (case select_chat chat_id cn of
        None \<Rightarrow> Inr None
      | Some chat_row \<Rightarrow>
     (case raises f 2 of Some e \<Rightarrow> Inl e | None \<Rightarrow>
     (case rows_to_messages (select_messages_asc chat_id cn) of
        Inl e \<Rightarrow> Inl e
      | Inr msgs \<Rightarrow>
          Inr (Some \<lparr>chat_id_of = Some (c_id chat_row), chat_user_id = c_user_id chat_row,
                     chat_title = c_title chat_row, chat_created_at = c_created_at chat_row,
                     chat_updated_at = c_updated_at chat_row, chat_messages = msgs\<rparr>))))))))"

text \<open>
  \<open>get_chats_list\<close>: one summary per chat (\<open>GROUP BY c.id\<close> over the \<open>LEFT JOIN\<close>), with
  \<open>COUNT(m.id)\<close> the number of joined message rows. The \<open>WHERE c.user_id = ?\<close> clause is
  added under \<open>if user_id:\<close>, Python's truth test, which \<open>None\<close> and the empty string
  both fail.
\<close>

record chat_summary =
  s_id :: int
  s_user_id :: "string option"
  s_title :: string
  s_created_at :: datetime
  s_updated_at :: datetime
  s_message_count :: nat

definition truthy :: "string option \<Rightarrow> bool" where
  "truthy s = (case s of None \<Rightarrow> False | Some v \<Rightarrow> v \<noteq> [])"

definition summary :: "database \<Rightarrow> chat_row \<Rightarrow> chat_summary" where
  "summary db c =
     \<lparr>s_id = c_id c, s_user_id = c_user_id c, s_title = c_title c,
      s_created_at = c_created_at c, s_updated_at = c_updated_at c,
      s_message_count = length (filter (\<lambda>m. m_chat_id m = c_id c) (messages db))\<rparr>"

definition get_chats_list ::
  "fault \<Rightarrow> int \<Rightarrow> int \<Rightarrow> string option \<Rightarrow> database \<Rightarrow> exc + chat_summary list" where
  "get_chats_list f limit_n offset_n user_id db =
     (case raises f 0 of Some e \<Rightarrow> Inl e | None \<Rightarrow>
     (let cn = connect db;
          selected = (if truthy user_id
                      then filter (\<lambda>c. c_user_id c = user_id) (chats (pending cn))
                      else chats (pending cn))
      in
     (case raises f 1 of Some e \<Rightarrow> Inl e | None \<Rightarrow>
     (if \<not> (sqlite_integer limit_n \<and> sqlite_integer offset_n) then Inl OverflowError else
        Inr (map (summary (pending cn))
               (limit limit_n (offset offset_n (order_by_desc c_updated_at selected))))))))"

definition delete_chat :: "fault \<Rightarrow> int \<Rightarrow> database \<Rightarrow> (exc + bool) \<times> database" where
  "delete_chat f chat_id db =
     (case raises f 0 of Some e \<Rightarrow> (Inl e, db) | None \<Rightarrow>
     (let cn = connect db in
     (case raises f 1 of Some e \<Rightarrow> (Inl e, close cn) | None \<Rightarrow>
     (if \<not> sqlite_integer chat_id then (Inl OverflowError, close cn) else
     (case delete_chat_rows chat_id cn of (rowcount, cn) \<Rightarrow>
     (case raises f 2 of Some e \<Rightarrow> (Inl e, close cn) | None \<Rightarrow>
     (let cn = commit cn;
          deleted = (0 < rowcount)
      in (Inr deleted, close cn))))))))"

definition get_last_n_messages :: "fault \<Rightarrow> int \<Rightarrow> int \<Rightarrow> database \<Rightarrow> exc + Message list" where
  "get_last_n_messages f chat_id n db =
     (case raises f 0 of Some e \<Rightarrow> Inl e | None \<Rightarrow>
     (let cn = connect db in
     (case raises f 1 of Some e \<Rightarrow> Inl e | None \<Rightarrow>
     (if \<not> (sqlite_integer chat_id \<and> sqlite_integer n) then Inl OverflowError else
     (let rows = select_messages_desc_limit chat_id n cn
      in rows_to_messages (rev rows))))))"

text \<open>
  \<open>init_db\<close> runs five \<open>CREATE ... IF NOT EXISTS\<close> statements and a commit; on the
  tables of this model, which exist, they change nothing.
\<close>

definition init_db :: "fault \<Rightarrow> database \<Rightarrow> (exc + unit) \<times> database" where
  "init_db f db =
     (case f of
        None \<Rightarrow> (Inr (), db)
      | Some (k, e) \<Rightarrow> if k \<le> 6 then (Inl e, db) else (Inr (), db))"

section \<open>Completion client: \<open>backend/core/deepseek_client.py\<close>\<close>

text \<open>
  An \<open>api_message\<close> is the dict \<open>{"role": ..., "content": ...}\<close>. The provider is a
  parameter: \<open>up k msgs t\<close> is what the \<open>k\<close>-th attempt's
  \<open>await self.client.chat.completions.create(model, messages, temperature)\<close>, followed by
  \<open>response.choices[0].message.content\<close>, yields for the messages \<open>msgs\<close> and the
  temperature \<open>t\<close>: the generated text, or the exception raised on the way. The
  exception may come from the request or from the \<open>await\<close> itself, which raises
  \<open>TypeError\<close> on the answer of a client that is not asynchronous.
\<close>

record api_message =
  api_role :: string
  api_content :: string

type_synonym upstream = "nat \<Rightarrow> api_message list \<Rightarrow> real \<Rightarrow> exc + string"

text \<open>
  The body of \<open>chat_completion\<close>: the system prompt, when truthy, goes in front of the
  history; both \<open>except\<close> clauses log and re-raise.
\<close>

definition chat_completion_body ::
  "upstream \<Rightarrow> nat \<Rightarrow> api_message list \<Rightarrow> real \<Rightarrow> string option \<Rightarrow> exc + string" where
  "chat_completion_body up k msgs temperature system_prompt =
     (let api_messages =
            (case system_prompt of
               None \<Rightarrow> []
             | Some p \<Rightarrow> if p \<noteq> [] then [\<lparr>api_role = ''system'', api_content = p\<rparr>] else [])
            @ msgs
      in case up k api_messages temperature of
           Inl e \<Rightarrow> Inl e
         | Inr text \<Rightarrow> Inr text)"

text \<open>
  The decorator \<open>@retry(stop=stop_after_attempt(3), wait=wait_exponential(multiplier=1,
  min=2, max=10), retry=retry_if_exception_type((APITimeoutError, APIConnectionError)))\<close>
  of the tenacity library. After a failed attempt tenacity asks \<open>retry\<close> whether the
  exception is one to retry (if not, the exception propagates), then \<open>stop\<close> whether the
  attempts are used up (if so it raises \<open>RetryError\<close>, since \<open>reraise\<close> is not set),
  and otherwise sleeps for \<open>wait\<close> and runs the next attempt. Attempts are numbered from 1;
  \<open>wait_exponential\<close> is \<open>multiplier * 2 ** (attempt_number - 1)\<close> clamped between
  \<open>min\<close> and \<open>max\<close>.
\<close>

definition stop_after_attempt :: "nat \<Rightarrow> nat \<Rightarrow> bool" where
  "stop_after_attempt max_attempt_number attempt_number =
     (max_attempt_number \<le> attempt_number)"

definition wait_exponential :: "int \<Rightarrow> int \<Rightarrow> int \<Rightarrow> nat \<Rightarrow> int" where
  "wait_exponential multiplier wait_min wait_max attempt_number =
     max (max 0 wait_min) (min (multiplier * 2 ^ (attempt_number - 1)) wait_max)"

definition retry_if_exception_type :: "exc \<Rightarrow> bool" where
  "retry_if_exception_type e = (e = APITimeoutError \<or> e = APIConnectionError)"

text \<open>
  What one call of the decorated \<open>chat_completion\<close> amounts to: its \<open>outcome\<close>, the
  number of \<open>attempts\<close> made, and the \<open>sleeps\<close> taken between them, in order.
\<close>

record completion =
  outcome :: "exc + string"
  attempts :: nat
  sleeps :: "int list"

function retrying ::
  "upstream \<Rightarrow> api_message list \<Rightarrow> real \<Rightarrow> string option \<Rightarrow> nat \<Rightarrow> int list \<Rightarrow> completion" where
  "retrying up msgs temperature system_prompt attempt_number slept =
     (case chat_completion_body up attempt_number msgs temperature system_prompt of
        Inr text \<Rightarrow> \<lparr>outcome = Inr text, attempts = attempt_number, sleeps = slept\<rparr>
      | Inl e \<Rightarrow>
          if \<not> retry_if_exception_type e
          then \<lparr>outcome = Inl e, attempts = attempt_number, sleeps = slept\<rparr>
          else if stop_after_attempt 3 attempt_number
          then \<lparr>outcome = Inl (RetryError e), attempts = attempt_number, sleeps = slept\<rparr>
          else retrying up msgs temperature system_prompt (attempt_number + 1)
                 (slept @ [wait_exponential 1 2 10 attempt_number]))"
  by pat_completeness auto
termination
  by (relation "measure (\<lambda>(up, msgs, temperature, system_prompt, attempt_number, slept).
                            3 - attempt_number)")
     (auto simp: stop_after_attempt_def)

declare retrying.simps [simp del]

definition chat_completion ::
  "upstream \<Rightarrow> api_message list \<Rightarrow> real \<Rightarrow> string option \<Rightarrow> completion" where
  "chat_completion up msgs temperature system_prompt =
     retrying up msgs temperature system_prompt 1 []"

definition convert_to_api_messages :: "Message list \<Rightarrow> api_message list" where
  "convert_to_api_messages msgs =
     map (\<lambda>msg. \<lparr>api_role = msg_role msg, api_content = msg_content msg\<rparr>) msgs"

text \<open>
  \<open>DeepSeekClient.health_check\<close>: \<open>probe\<close> is what the test request yields, the list
  \<open>response.choices\<close> or the exception raised; \<open>except Exception\<close> returns \<open>False\<close>.
\<close>

definition DeepSeekClient_health_check :: "exc + string list \<Rightarrow> exc + bool" where
  "DeepSeekClient_health_check probe =
     (case probe of
        Inr choices \<Rightarrow> Inr (choices \<noteq> [])
      | Inl e \<Rightarrow> Inr False)"

section \<open>Orchestrator: \<open>backend/core/chat_manager.py\<close>\<close>

text \<open>
  The \<open>env\<close> of one \<open>process_message\<close> call: the fault the storage engine applies to
  each database operation, the clock reading each operation takes, and the provider.
\<close>

record env =
  create_fault :: fault
  create_now :: datetime
  save_user_fault :: fault
  save_user_now :: datetime
  context_fault :: fault
  provider :: upstream
  save_assistant_fault :: fault
  save_assistant_now :: datetime
  reply_now :: datetime

text \<open>
  The returned dict. \<open>r_error\<close> holds the exception \<open>e\<close> whose \<open>str(e)\<close> the source
  stores under \<open>"error"\<close>; the success dict has no such key.
\<close>

record process_result =
  r_chat_id :: "int option"
  r_message :: "Message option"
  r_success :: bool
  r_error :: "exc option"

definition failure :: "int option \<Rightarrow> exc \<Rightarrow> process_result" where
  "failure chat_id e =
     \<lparr>r_chat_id = chat_id, r_message = None, r_success = False, r_error = Some e\<rparr>"

text \<open>Step 1 of \<open>process_message\<close>: \<open>if chat_id is None: chat_id = await create_chat(...)\<close>\<close>

definition resolve_chat ::
  "env \<Rightarrow> string \<Rightarrow> int option \<Rightarrow> string option \<Rightarrow> database \<Rightarrow> (exc + int) \<times> database" where
  "resolve_chat env message chat_id user_id db =
     (case chat_id of
        None \<Rightarrow>
          create_chat (create_fault env) (create_now env) user_id
            (if 50 < length message then take 50 message @ ''...'' else message) db
      | Some c \<Rightarrow> (Inr c, db))"

text \<open>
  \<open>process_message\<close> returns the dict, the database file afterwards, and the number of
  requests sent to the provider. The \<open>except Exception\<close> clause sees the value
  \<open>chat_id\<close> has when the exception is raised.
\<close>

definition process_message ::
  "env \<Rightarrow> string \<Rightarrow> int option \<Rightarrow> real \<Rightarrow> string option \<Rightarrow> string option \<Rightarrow> database
     \<Rightarrow> process_result \<times> database \<times> nat" where
  "process_message env message chat_id temperature system_prompt user_id db =
     (case resolve_chat env message chat_id user_id db of
        (Inl e, db1) \<Rightarrow> (failure chat_id e, db1, 0)
      | (Inr c, db1) \<Rightarrow>
     (case save_message (save_user_fault env) (save_user_now env) c ''user'' message db1 of
        (Inl e, db2) \<Rightarrow> (failure (Some c) e, db2, 0)
      | (Inr user_message_id, db2) \<Rightarrow>
     (case get_last_n_messages (context_fault env) c 10 db2 of
        Inl e \<Rightarrow> (failure (Some c) e, db2, 0)
      | Inr last_messages \<Rightarrow>
     (let api_messages = convert_to_api_messages last_messages;
          call = chat_completion (provider env) api_messages temperature system_prompt
      in case outcome call of
        Inl e \<Rightarrow> (failure (Some c) e, db2, attempts call)
      | Inr ai_response \<Rightarrow>
     (case save_message (save_assistant_fault env) (save_assistant_now env) c ''assistant''
             ai_response db2 of
        (Inl e, db3) \<Rightarrow> (failure (Some c) e, db3, attempts call)
      | (Inr assistant_message_id, db3) \<Rightarrow>
     (case new_Message (Some assistant_message_id) (Some c) ''assistant'' ai_response
             (reply_now env) of
        Inl e \<Rightarrow> (failure (Some c) e, db3, attempts call)
      | Inr m \<Rightarrow>
          (\<lparr>r_chat_id = Some c, r_message = Some m, r_success = True, r_error = None\<rparr>,
           db3, attempts call)))))))"

text \<open>
  \<open>ChatManager.health_check\<close>: both entries start as \<open>unknown\<close>; each \<open>try\<close> block
  overwrites its own entry.
\<close>

record health_status =
  status_database :: string
  status_deepseek_api :: string

definition ChatManager_health_check :: "fault \<Rightarrow> exc + string list \<Rightarrow> database \<Rightarrow> health_status" where
  "ChatManager_health_check f probe db =
     (let status = \<lparr>status_database = ''unknown'', status_deepseek_api = ''unknown''\<rparr>;
          status = (case fst (init_db f db) of
                      Inr u \<Rightarrow> status\<lparr>status_database := ''ok''\<rparr>
                    | Inl e \<Rightarrow> status\<lparr>status_database := ''error''\<rparr>);
          status = (case DeepSeekClient_health_check probe of
                      Inr api_status \<Rightarrow>
                        status\<lparr>status_deepseek_api := (if api_status then ''ok'' else ''error'')\<rparr>
                    | Inl e \<Rightarrow> status\<lparr>status_deepseek_api := ''error''\<rparr>)
      in status)"

section \<open>API boundary: \<open>ChatRequest\<close> and the route \<open>POST /api/chat\<close>\<close>

text \<open>
  \<open>ChatRequest\<close> constrains \<open>message\<close> by \<open>min_length=1, max_length=10000\<close> and
  \<open>temperature\<close> by \<open>ge=0.0, le=1.0\<close>. FastAPI builds the model from the request body
  before it calls the route function, and answers 422 itself when that raises. A
  temperature is a real number.
\<close>

record ChatRequest =
  req_message :: string
  req_chat_id :: "int option"
  req_temperature :: real
  req_system_prompt :: "string option"

definition new_ChatRequest ::
  "string \<Rightarrow> int option \<Rightarrow> real \<Rightarrow> string option \<Rightarrow> exc + ChatRequest" where
  "new_ChatRequest message chat_id temperature system_prompt =
     (if 1 \<le> length message \<and> length message \<le> 10000 \<and> 0 \<le> temperature \<and> temperature \<le> 1
      then Inr \<lparr>req_message = message, req_chat_id = chat_id, req_temperature = temperature,
                req_system_prompt = system_prompt\<rparr>
      else Inl ValidationError)"

datatype http_response =
    ChatResponse int Message
  | HTTP_422 exc
  | HTTP_500 "exc option"

definition chat ::
  "env \<Rightarrow> string \<Rightarrow> int option \<Rightarrow> real \<Rightarrow> string option \<Rightarrow> database
     \<Rightarrow> http_response \<times> database \<times> nat" where
  "chat env message chat_id temperature system_prompt db =
     (case new_ChatRequest message chat_id temperature system_prompt of
        Inl e \<Rightarrow> (HTTP_422 e, db, 0)
      | Inr request \<Rightarrow>
          (case process_message env (req_message request) (req_chat_id request)
                  (req_temperature request) (req_system_prompt request) None db of
             (result, db1, calls) \<Rightarrow>
               if \<not> r_success result then (HTTP_500 (r_error result), db1, calls)
               else (case (r_chat_id result, r_message result) of
                       (Some c, Some m) \<Rightarrow> (ChatResponse c m, db1, calls)
                     | _ \<Rightarrow> (HTTP_500 None, db1, calls))))"

section \<open>Concrete stores, providers and environments\<close>

text \<open>The inputs at which the theorems below are evaluated.\<close>

definition db_empty :: database where
  "db_empty = \<lparr>chats = [], messages = [], chats_seq = 0, messages_seq = 0\<rparr>"

text \<open>One conversation, created at time 5, with a user turn at 5 and a reply at 8.\<close>

definition db_history :: database where
  "db_history =
     \<lparr>chats = [\<lparr>c_id = 1, c_user_id = Some ''ann'', c_title = ''Hello'',
                 c_created_at = 5, c_updated_at = 8\<rparr>],
      messages = [\<lparr>m_id = 1, m_chat_id = 1, m_role = ''user'', m_content = ''Hello'',
                    m_timestamp = 5\<rparr>,
                  \<lparr>m_id = 2, m_chat_id = 1, m_role = ''assistant'', m_content = ''Hi'',
                    m_timestamp = 8\<rparr>],
      chats_seq = 1, messages_seq = 2\<rparr>"


definition provider_ok :: upstream where
  "provider_ok k msgs t = Inr ''Hi''"

definition provider_unreachable :: upstream where
  "provider_unreachable k msgs t = Inl APIConnectionError"



text \<open>A storage engine without faults, the clock advancing by one between readings.\<close>

definition env_with :: "upstream \<Rightarrow> env" where
  "env_with up =
     \<lparr>create_fault = None, create_now = 10, save_user_fault = None, save_user_now = 11,
      context_fault = None, provider = up, save_assistant_fault = None,
      save_assistant_now = 12, reply_now = 13\<rparr>"

text \<open>Two conversations of different owners and one without an owner, one message each.\<close>

definition db_owners :: database where
  "db_owners =
     \<lparr>chats = [\<lparr>c_id = 1, c_user_id = Some ''ann'', c_title = ''First'',
                 c_created_at = 1, c_updated_at = 4\<rparr>,
               \<lparr>c_id = 2, c_user_id = Some ''bob'', c_title = ''Second'',
                 c_created_at = 2, c_updated_at = 5\<rparr>,
               \<lparr>c_id = 3, c_user_id = None, c_title = ''Third'',
                 c_created_at = 3, c_updated_at = 6\<rparr>],
      messages = [\<lparr>m_id = 1, m_chat_id = 1, m_role = ''user'', m_content = ''a'',
                    m_timestamp = 4\<rparr>,
                  \<lparr>m_id = 2, m_chat_id = 2, m_role = ''user'', m_content = ''b'',
                    m_timestamp = 5\<rparr>,
                  \<lparr>m_id = 3, m_chat_id = 3, m_role = ''user'', m_content = ''c'',
                    m_timestamp = 6\<rparr>],
      chats_seq = 3, messages_seq = 3\<rparr>"



text \<open>An attempt fails transiently when it raises an exception the retry predicate accepts.\<close>

definition fails_transiently :: "exc + string \<Rightarrow> bool" where
  "fails_transiently r =
     (case r of Inl e \<Rightarrow> retry_if_exception_type e | Inr reply \<Rightarrow> False)"

section \<open>Properties of the store\<close>

lemmas store_defs = raises_def sqlite_integer_def connect_def close_def commit_def
  insert_message_def insert_chat_def update_chat_updated_at_def delete_chat_rows_def
  select_chat_def select_messages_asc_def select_messages_desc_limit_def order_by_asc_def
  order_by_desc_def limit_def offset_def new_Message_def Let_def

lemmas client_defs = chat_completion_def retrying.simps chat_completion_body_def
  convert_to_api_messages_def retry_if_exception_type_def stop_after_attempt_def
  wait_exponential_def

subsection \<open>What a write leaves behind\<close>

lemma save_message_cases:
  assumes "save_message f now chat_id role content db = (r, db')"
  shows "(\<exists>e. r = Inl e \<and> db' = db) \<or>
         (r = Inr (messages_seq db + 1) \<and>
          db' = db\<lparr>chats := map (\<lambda>c. if c_id c = chat_id then c\<lparr>c_updated_at := now\<rparr> else c)
                                 (chats db),
                    messages := messages db @
                      [\<lparr>m_id = messages_seq db + 1, m_chat_id = chat_id, m_role = role,
                        m_content = content, m_timestamp = now\<rparr>],
                    messages_seq := messages_seq db + 1\<rparr>)"
  using assms
  by (auto simp: save_message_def raises_def connect_def close_def commit_def insert_message_def
        update_chat_updated_at_def Let_def split: option.splits if_splits)

lemma save_message_grows:
  assumes "save_message f now chat_id role content db = (r, db')"
  shows "prefix (messages db) (messages db')"
    and "map c_title (chats db') = map c_title (chats db)"
    and "map c_id (chats db') = map c_id (chats db)"
  using save_message_cases [OF assms] by (auto simp: comp_def)



lemma save_message_chats:
  assumes "save_message f now chat_id role content db = (r, db')"
  shows "map c_title (chats db') = map c_title (chats db)
         \<and> map c_id (chats db') = map c_id (chats db)"
  using save_message_grows [OF assms] by simp


lemma create_chat_no_fault:
  "create_chat None now user_id title db =
     (Inr (chats_seq db + 1),
      db\<lparr>chats := chats db @
             [\<lparr>c_id = chats_seq db + 1, c_user_id = user_id, c_title = title,
               c_created_at = now, c_updated_at = now\<rparr>],
          chats_seq := chats_seq db + 1\<rparr>)"
  by (simp add: create_chat_def raises_def connect_def close_def commit_def insert_chat_def
        Let_def)

text \<open>
  Claim C3, as the code has it. A \<open>save_message\<close> call that raises, at whichever of its
  database calls, leaves the database as it was; a call that returns has appended the
  message row and set \<open>updated_at\<close> of the conversation, both. After a call that returns,
  \<open>updated_at\<close> of the conversation equals the timestamp of the appended message, no
  other conversation is touched, and \<open>updated_at\<close> has not decreased provided the clock
  reading of the call is not earlier than the value it replaces.
\<close>

theorem save_message_atomic_touch:
  assumes "save_message f now chat_id role content db = (r, db')"
  shows "(case r of
            Inl e \<Rightarrow> db' = db
          | Inr message_id \<Rightarrow>
              messages db' = messages db @
                [\<lparr>m_id = message_id, m_chat_id = chat_id, m_role = role,
                  m_content = content, m_timestamp = now\<rparr>]
              \<and> map c_id (chats db') = map c_id (chats db)
              \<and> (\<forall>i < length (chats db).
                    (c_id (chats db ! i) = chat_id \<longrightarrow>
                       c_updated_at (chats db' ! i) = now
                       \<and> (c_updated_at (chats db ! i) \<le> now
                            \<longrightarrow> c_updated_at (chats db ! i) \<le> c_updated_at (chats db' ! i)))
                  \<and> (c_id (chats db ! i) \<noteq> chat_id \<longrightarrow> chats db' ! i = chats db ! i)))"
  using save_message_cases [OF assms]
  by (auto simp: comp_def)

subsection \<open>Listing conversations\<close>

text \<open>
  Claim C10. For every limit and offset, \<open>get_chats_list\<close> called with the empty string
  as owner id returns what it returns with no owner id: the empty string fails the test
  \<open>if user_id:\<close>, so no \<open>WHERE\<close> clause is added. Where the engine raises nothing and
  limit and offset can be bound, both calls return the summaries of the conversations of
  every owner, newest update first, cut by offset and limit; where either cannot be
  bound, both raise \<open>OverflowError\<close>.
\<close>

theorem get_chats_list_empty_user_id:
  "get_chats_list f limit_n offset_n (Some '''') db = get_chats_list f limit_n offset_n None db
   \<and> get_chats_list None limit_n offset_n (Some '''') db =
       (if sqlite_integer limit_n \<and> sqlite_integer offset_n
        then Inr (map (summary db)
                    (limit limit_n (offset offset_n (order_by_desc c_updated_at (chats db)))))
        else Inl OverflowError)"
  by (simp add: get_chats_list_def truthy_def raises_def connect_def Let_def
        split: option.splits)

subsection \<open>The context window\<close>









section \<open>Properties of the completion client\<close>

lemma wait_exponential_bounds:
  "2 \<le> wait_exponential 1 2 10 k \<and> wait_exponential 1 2 10 k \<le> 10"
  by (simp add: wait_exponential_def)

lemma retrying_step_success:
  assumes "chat_completion_body up n msgs t sp = Inr reply"
  shows "retrying up msgs t sp n slept = \<lparr>outcome = Inr reply, attempts = n, sleeps = slept\<rparr>"
  using assms by (subst retrying.simps) simp

lemma retrying_step_permanent:
  assumes "chat_completion_body up n msgs t sp = Inl e" and "\<not> retry_if_exception_type e"
  shows "retrying up msgs t sp n slept = \<lparr>outcome = Inl e, attempts = n, sleeps = slept\<rparr>"
  using assms by (subst retrying.simps) simp

lemma retrying_step_exhausted:
  assumes "chat_completion_body up n msgs t sp = Inl e" and "retry_if_exception_type e"
    and "3 \<le> n"
  shows "retrying up msgs t sp n slept =
           \<lparr>outcome = Inl (RetryError e), attempts = n, sleeps = slept\<rparr>"
  using assms by (subst retrying.simps) (simp add: stop_after_attempt_def)

lemma retrying_step_transient:
  assumes "fails_transiently (chat_completion_body up n msgs t sp)" and "n < 3"
  shows "retrying up msgs t sp n slept =
           retrying up msgs t sp (Suc n) (slept @ [wait_exponential 1 2 10 n])"
  using assms
  by (subst retrying.simps)
     (simp add: fails_transiently_def stop_after_attempt_def split: sum.splits)

text \<open>The four ways one round of the retry loop can go.\<close>

lemma retrying_cases:
  obtains (success) reply where "chat_completion_body up n msgs t sp = Inr reply"
  | (permanent) e where "chat_completion_body up n msgs t sp = Inl e"
      "\<not> retry_if_exception_type e"
  | (exhausted) e where "chat_completion_body up n msgs t sp = Inl e"
      "retry_if_exception_type e" "3 \<le> n"
  | (again) "fails_transiently (chat_completion_body up n msgs t sp)" "n < 3"
proof (cases "chat_completion_body up n msgs t sp")
  case (Inr reply)
  then show ?thesis by (rule success)
next
  case (Inl e)
  then show ?thesis
    using permanent [of e] exhausted [of e] again
    by (cases "retry_if_exception_type e"; cases "n < 3")
       (simp_all add: fails_transiently_def)
qed

lemma retrying_attempts_lower:
  "n \<le> attempts (retrying up msgs t sp n slept)"
proof (induction up msgs t sp n slept rule: retrying.induct)
  case (1 up msgs t sp n slept)
  show ?case
  proof (cases rule: retrying_cases [of up n msgs t sp])
    case (success reply)
    then show ?thesis by (simp add: retrying_step_success)
  next
    case (permanent e)
    then show ?thesis by (simp add: retrying_step_permanent)
  next
    case (exhausted e)
    then show ?thesis by (simp add: retrying_step_exhausted)
  next
    case again
    then obtain e where e: "chat_completion_body up n msgs t sp = Inl e"
      "retry_if_exception_type e"
      by (auto simp: fails_transiently_def split: sum.splits)
    have "n + 1 \<le> attempts (retrying up msgs t sp (n + 1) (slept @ [wait_exponential 1 2 10 n]))"
      using "1.IH" [OF e(1)] e(2) again(2) by (simp add: stop_after_attempt_def)
    then show ?thesis using again by (simp add: retrying_step_transient)
  qed
qed


lemma retrying_sleeps:
  "sleeps (retrying up msgs t sp n slept) =
     slept @ map (wait_exponential 1 2 10) [n ..< attempts (retrying up msgs t sp n slept)]"
proof (induction up msgs t sp n slept rule: retrying.induct)
  case (1 up msgs t sp n slept)
  show ?case
  proof (cases rule: retrying_cases [of up n msgs t sp])
    case (success reply)
    then show ?thesis by (simp add: retrying_step_success)
  next
    case (permanent e)
    then show ?thesis by (simp add: retrying_step_permanent)
  next
    case (exhausted e)
    then show ?thesis by (simp add: retrying_step_exhausted)
  next
    case again
    then obtain e where e: "chat_completion_body up n msgs t sp = Inl e"
      "retry_if_exception_type e"
      by (auto simp: fails_transiently_def split: sum.splits)
    let ?next = "retrying up msgs t sp (n + 1) (slept @ [wait_exponential 1 2 10 n])"
    have eq: "retrying up msgs t sp n slept = ?next"
      using again by (simp add: retrying_step_transient)
    have "sleeps ?next = (slept @ [wait_exponential 1 2 10 n])
             @ map (wait_exponential 1 2 10) [n + 1 ..< attempts ?next]"
      using "1.IH" [OF e(1)] e(2) again(2) by (simp add: stop_after_attempt_def)
    moreover have "n < attempts ?next"
      using retrying_attempts_lower [of "n + 1" up msgs t sp] by (simp add: Suc_le_eq)
    ultimately show ?thesis
      unfolding eq by (simp add: upt_conv_Cons)
  qed
qed


section \<open>Properties of the orchestrator\<close>


lemma resolve_chat_Inl:
  assumes "resolve_chat env message chat_id user_id db = (Inl e, db1)"
  shows "chat_id = None"
  using assms by (auto simp: resolve_chat_def split: option.splits)






lemma process_message_chats:
  assumes "process_message env message chat_id temperature system_prompt user_id db
             = (r, db', calls)"
    and "resolve_chat env message chat_id user_id db = (Inr c, db1)"
  shows "map c_title (chats db') = map c_title (chats db1)"
    and "map c_id (chats db') = map c_id (chats db1)"
    and "r_chat_id r = Some c"
  using assms
  by (auto simp: process_message_def failure_def Let_def
           split: prod.splits sum.splits
           dest!: save_message_chats)

text \<open>
  Claim C7. When no conversation id is given and the store takes the insert,
  \<open>process_message\<close> adds exactly one conversation, returns its id, and its title is the
  message itself when the message has at most 50 characters and the first 50 characters
  followed by \<open>...\<close> otherwise; the titles of the other conversations are unchanged.
\<close>

theorem process_message_new_chat_title:
  assumes "create_fault env = None"
    and "process_message env message None temperature system_prompt user_id db = (r, db', calls)"
  shows "r_chat_id r = Some (chats_seq db + 1)
         \<and> map c_id (chats db') = map c_id (chats db) @ [chats_seq db + 1]
         \<and> map c_title (chats db') =
             map c_title (chats db) @
               [if length message \<le> 50 then message else take 50 message @ ''...'']"
proof -
  let ?title = "if 50 < length message then take 50 message @ ''...'' else message"
  let ?db1 = "db\<lparr>chats := chats db @
                 [\<lparr>c_id = chats_seq db + 1, c_user_id = user_id, c_title = ?title,
                   c_created_at = create_now env, c_updated_at = create_now env\<rparr>],
               chats_seq := chats_seq db + 1\<rparr>"
  have step1: "resolve_chat env message None user_id db = (Inr (chats_seq db + 1), ?db1)"
    using assms(1) by (simp add: resolve_chat_def create_chat_no_fault)
  show ?thesis
    using process_message_chats [OF assms(2) step1] by auto
qed

section \<open>Properties of the health checks\<close>

text \<open>
  Claim C9. \<open>DeepSeekClient.health_check\<close> never raises, and answers \<open>False\<close> whenever
  its request raises. \<open>ChatManager.health_check\<close> always reports both components, each
  as \<open>ok\<close> or \<open>error\<close>: the storage entry is decided by \<open>init_db\<close> alone and the
  completion entry by the client's check alone, so neither outcome affects the other
  entry. With the storage reachable and the completion request raising, the report is
  storage \<open>ok\<close>, completion API \<open>error\<close>.
\<close>

theorem health_check_reports_both:
  "(\<exists>b. DeepSeekClient_health_check probe = Inr b)
   \<and> DeepSeekClient_health_check (Inl e) = Inr False
   \<and> status_database (ChatManager_health_check f probe db)
       = (if fst (init_db f db) = Inr () then ''ok'' else ''error'')
   \<and> status_deepseek_api (ChatManager_health_check f probe db)
       = (if DeepSeekClient_health_check probe = Inr True then ''ok'' else ''error'')
   \<and> status_database (ChatManager_health_check f probe' db)
       = status_database (ChatManager_health_check f probe db)
   \<and> status_deepseek_api (ChatManager_health_check f' probe db')
       = status_deepseek_api (ChatManager_health_check f probe db)
   \<and> ChatManager_health_check None (Inl e) db
       = \<lparr>status_database = ''ok'', status_deepseek_api = ''error''\<rparr>"
  by (auto simp: DeepSeekClient_health_check_def ChatManager_health_check_def init_db_def Let_def
        split: sum.splits option.splits)

section \<open>Properties of the API boundary\<close>

text \<open>
  Claim C8. A request whose message has exactly 10000 characters and whose temperature
  lies in \<open>[0, 1]\<close> passes validation and is not answered with a validation error. A
  request whose message is empty or has 10001 or more characters, or whose temperature
  is below 0 or above 1, is answered with a validation error; the store is left as it
  was and no request is sent to the provider.
\<close>

theorem chat_request_validation:
  "(length message = 10000 \<and> 0 \<le> temperature \<and> temperature \<le> 1 \<longrightarrow>
      new_ChatRequest message chat_id temperature system_prompt =
        Inr \<lparr>req_message = message, req_chat_id = chat_id, req_temperature = temperature,
             req_system_prompt = system_prompt\<rparr>
      \<and> (\<forall>e. fst (chat env message chat_id temperature system_prompt db) \<noteq> HTTP_422 e))
   \<and> (message = [] \<or> 10001 \<le> length message \<or> temperature < 0 \<or> 1 < temperature \<longrightarrow>
      new_ChatRequest message chat_id temperature system_prompt = Inl ValidationError
      \<and> chat env message chat_id temperature system_prompt db = (HTTP_422 ValidationError, db, 0))"
  by (auto simp: new_ChatRequest_def chat_def split: prod.splits option.splits)

section \<open>The theorems at concrete inputs\<close>

subsection \<open>Appending a message\<close>

text \<open>
  The conversation of \<open>db_history\<close> was last updated at 8. An append whose clock reading
  is 6 returns normally and leaves \<open>updated_at\<close> at 6: lower than before, and behind the
  message written at 8.
\<close>

theorem save_message_clock_counterexample:
  "map c_updated_at (chats db_history) = [8]
   \<and> fst (save_message None 6 1 ''user'' ''Again'' db_history) = Inr 3
   \<and> map c_updated_at (chats (snd (save_message None 6 1 ''user'' ''Again'' db_history))) = [6]
   \<and> map m_timestamp (messages (snd (save_message None 6 1 ''user'' ''Again'' db_history)))
        = [5, 8, 6]"
  by (simp add: save_message_def db_history_def store_defs)

text \<open>
  An append that the engine fails after the insert, before the update, leaves the store
  unchanged; one that goes through sets \<open>updated_at\<close> to its clock reading.
\<close>

theorem save_message_atomic_touch_witness:
  "save_message (Some (2, OperationalError)) 9 1 ''user'' ''Again'' db_history
     = (Inl OperationalError, db_history)
   \<and> fst (save_message None 9 1 ''user'' ''Again'' db_history) = Inr 3
   \<and> c_updated_at (chats (snd (save_message None 9 1 ''user'' ''Again'' db_history)) ! 0) = 9"
proof -
  obtain r db' where failed:
    "save_message (Some (2, OperationalError)) 9 1 ''user'' ''Again'' db_history = (r, db')"
    by (cases "save_message (Some (2, OperationalError)) 9 1 ''user'' ''Again'' db_history")
  have r: "r = Inl OperationalError"
    using failed by (simp add: save_message_def db_history_def store_defs)
  have unchanged: "db' = db_history"
    using save_message_atomic_touch [OF failed] r by simp
  obtain db'' where saved:
    "save_message None 9 1 ''user'' ''Again'' db_history = (Inr 3, db'')"
    by (simp add: save_message_def db_history_def store_defs)
  have "c_updated_at (chats db'' ! 0) = 9"
    using save_message_atomic_touch [OF saved] by (simp add: db_history_def)
  then show ?thesis
    using failed r unchanged saved by simp
qed

text \<open>
  Without a fault of the engine, an append returns for every conversation id that can be
  bound, whether the conversation exists or not.
\<close>

lemma save_message_no_fault:
  "sqlite_integer chat_id \<Longrightarrow>
     fst (save_message None now chat_id role content db) = Inr (messages_seq db + 1)"
  by (simp add: save_message_def store_defs)

text \<open>
  Claim C6, at the empty store. \<open>save_message\<close> for conversation 999, which does not
  exist, raises nothing: it returns the id of the new message and the store now holds a
  message row whose conversation \<open>get_chat\<close> does not find.
\<close>

theorem save_message_orphan_row:
  "save_message None 9 999 ''user'' ''Hello'' db_empty =
     (Inr 1,
      \<lparr>chats = [],
       messages = [\<lparr>m_id = 1, m_chat_id = 999, m_role = ''user'', m_content = ''Hello'',
                     m_timestamp = 9\<rparr>],
       chats_seq = 0, messages_seq = 1\<rparr>)
   \<and> get_chat None 999 db_empty = Inr None"
  by (simp add: save_message_def get_chat_def db_empty_def store_defs)

subsection \<open>Listing conversations\<close>

text \<open>
  In \<open>db_owners\<close> the empty owner id lists the conversations of \<open>ann\<close>, of \<open>bob\<close> and the
  one without owner, newest update first.
\<close>

theorem get_chats_list_empty_user_id_witness:
  "get_chats_list None 50 0 (Some '''') db_owners =
     Inr [\<lparr>s_id = 3, s_user_id = None, s_title = ''Third'', s_created_at = 3,
            s_updated_at = 6, s_message_count = 1\<rparr>,
          \<lparr>s_id = 2, s_user_id = Some ''bob'', s_title = ''Second'', s_created_at = 2,
            s_updated_at = 5, s_message_count = 1\<rparr>,
          \<lparr>s_id = 1, s_user_id = Some ''ann'', s_title = ''First'', s_created_at = 1,
            s_updated_at = 4, s_message_count = 1\<rparr>]
   \<and> get_chats_list None 50 0 None db_owners = get_chats_list None 50 0 (Some '''') db_owners"
proof -
  note both = get_chats_list_empty_user_id [of None 50 0 db_owners]
  have listed: "get_chats_list None 50 0 (Some '''') db_owners =
      Inr (map (summary db_owners)
             (limit 50 (offset 0 (order_by_desc c_updated_at (chats db_owners)))))"
    using both [THEN conjunct2] by (simp add: sqlite_integer_def)
  have same: "get_chats_list None 50 0 None db_owners
                = get_chats_list None 50 0 (Some '''') db_owners"
    using both [THEN conjunct1] by simp
  show ?thesis
    unfolding same listed
    by (simp add: db_owners_def summary_def order_by_desc_def limit_def offset_def)
qed

subsection \<open>Deleting a conversation\<close>

lemma delete_chat_no_fault:
  assumes "sqlite_integer chat_id"
  shows "delete_chat None chat_id db =
     (Inr (chat_id \<in> set (map c_id (chats db))),
      db\<lparr>chats := filter (\<lambda>c. c_id c \<noteq> chat_id) (chats db)\<rparr>)"
proof -
  have "(0 < length (filter (\<lambda>c. c_id c = chat_id) (chats db)))
          = (chat_id \<in> set (map c_id (chats db)))"
    by (auto simp: filter_empty_conv)
  then show ?thesis
    using assms by (simp add: delete_chat_def raises_def connect_def close_def commit_def
                      delete_chat_rows_def Let_def)
qed

text \<open>What the callers see after a delete that went through.\<close>

lemma delete_chat_then_get_chat:
  assumes "sqlite_integer chat_id"
  shows "get_chat None chat_id (snd (delete_chat None chat_id db)) = Inr None"
  using assms
  by (simp add: delete_chat_no_fault get_chat_def raises_def connect_def select_chat_def
        filter_empty_conv Let_def split: list.splits)

lemma limit_offset_subset:
  "set (limit n (offset k rows)) \<subseteq> set rows"
  by (auto simp: limit_def offset_def dest: in_set_takeD in_set_dropD)

lemma get_chats_list_ids:
  assumes "get_chats_list None limit_n offset_n user_id db = Inr xs"
  shows "set (map s_id xs) \<subseteq> set (map c_id (chats db))"
proof -
  have sub: "set (limit limit_n (offset offset_n (order_by_desc c_updated_at rows))) \<subseteq> set rows"
    for rows :: "chat_row list"
    using limit_offset_subset [of limit_n offset_n "order_by_desc c_updated_at rows"]
    by (simp add: order_by_desc_def)
  show ?thesis
  proof (cases "truthy user_id")
    case True
    then have "xs = map (summary db)
        (limit limit_n (offset offset_n (order_by_desc c_updated_at
           (filter (\<lambda>c. c_user_id c = user_id) (chats db)))))"
      using assms
      by (simp add: get_chats_list_def raises_def connect_def Let_def split: if_splits)
    then show ?thesis
      using sub [of "filter (\<lambda>c. c_user_id c = user_id) (chats db)"]
      by (auto simp: summary_def)
  next
    case False
    then have "xs = map (summary db)
        (limit limit_n (offset offset_n (order_by_desc c_updated_at (chats db))))"
      using assms
      by (simp add: get_chats_list_def raises_def connect_def Let_def split: if_splits)
    then show ?thesis
      using sub [of "chats db"] by (auto simp: summary_def)
  qed
qed

lemma delete_chat_then_list:
  assumes "sqlite_integer chat_id"
    and "get_chats_list None limit_n offset_n user_id (snd (delete_chat None chat_id db))
           = Inr xs"
  shows "chat_id \<notin> set (map s_id xs)"
  using get_chats_list_ids [OF assms(2)] assms(1) by (auto simp: delete_chat_no_fault)

text \<open>
  Claim C5, at the store \<open>db_history\<close>. \<open>delete_chat\<close> returns \<open>True\<close> and removes the
  conversation row, and \<open>get_chat\<close> no longer finds the conversation; but both message
  rows of the conversation are still stored, and \<open>get_last_n_messages\<close> still returns
  them.
\<close>

theorem delete_chat_keeps_messages:
  "delete_chat None 1 db_history = (Inr True, db_history\<lparr>chats := []\<rparr>)
   \<and> get_chat None 1 (db_history\<lparr>chats := []\<rparr>) = Inr None
   \<and> messages (db_history\<lparr>chats := []\<rparr>) = messages db_history
   \<and> get_last_n_messages None 1 10 (db_history\<lparr>chats := []\<rparr>) =
       Inr [\<lparr>msg_id = Some 1, msg_chat_id = Some 1, msg_role = ''user'',
             msg_content = ''Hello'', msg_timestamp = 5\<rparr>,
            \<lparr>msg_id = Some 2, msg_chat_id = Some 1, msg_role = ''assistant'',
             msg_content = ''Hi'', msg_timestamp = 8\<rparr>]"
  by (simp add: delete_chat_def get_chat_def get_last_n_messages_def db_history_def store_defs)

subsection \<open>The context window\<close>



subsection \<open>Retrying\<close>



subsection \<open>Processing a message\<close>


lemma process_message_unreachable:
  "process_message (env_with provider_unreachable) ''Hello'' None (7 / 10) None None db_empty =
     (failure (Some 1) (RetryError APIConnectionError),
      \<lparr>chats = [\<lparr>c_id = 1, c_user_id = None, c_title = ''Hello'', c_created_at = 10,
                  c_updated_at = 11\<rparr>],
       messages = [\<lparr>m_id = 1, m_chat_id = 1, m_role = ''user'', m_content = ''Hello'',
                     m_timestamp = 11\<rparr>],
       chats_seq = 1, messages_seq = 1\<rparr>,
      3)"
  by (simp add: process_message_def resolve_chat_def create_chat_def save_message_def
        get_last_n_messages_def env_with_def provider_unreachable_def db_empty_def store_defs
        client_defs)



text \<open>\<open>Hello\<close> sent with no conversation id creates the conversation titled \<open>Hello\<close>.\<close>

theorem process_message_new_chat_title_witness:
  "create_fault (env_with provider_ok) = None
   \<and> r_chat_id (fst (process_message (env_with provider_ok) ''Hello'' None (7 / 10) None None
                       db_empty)) = Some 1
   \<and> map c_title (chats (fst (snd (process_message (env_with provider_ok) ''Hello'' None (7 / 10)
                                      None None db_empty)))) = [''Hello'']"
proof -
  have f: "create_fault (env_with provider_ok) = None" by (simp add: env_with_def)
  obtain r db' calls where p:
    "process_message (env_with provider_ok) ''Hello'' None (7 / 10) None None db_empty
       = (r, db', calls)"
    by (cases "process_message (env_with provider_ok) ''Hello'' None (7 / 10) None None db_empty")
  show ?thesis
    using f p process_message_new_chat_title [OF f p] by (simp add: db_empty_def)
qed

subsection \<open>Validating a request\<close>

theorem chat_request_validation_witness:
  "new_ChatRequest (replicate 10000 CHR ''a'') (Some 1) 1 None =
     Inr \<lparr>req_message = replicate 10000 CHR ''a'', req_chat_id = Some 1, req_temperature = 1,
          req_system_prompt = None\<rparr>
   \<and> chat (env_with provider_ok) (replicate 10001 CHR ''a'') (Some 1) 1 None db_history
       = (HTTP_422 ValidationError, db_history, 0)
   \<and> chat (env_with provider_ok) '''' (Some 1) 1 None db_history
       = (HTTP_422 ValidationError, db_history, 0)
   \<and> chat (env_with provider_ok) ''Hello'' (Some 1) (3 / 2) None db_history
       = (HTTP_422 ValidationError, db_history, 0)"
  using chat_request_validation [of "replicate 10000 CHR ''a''" 1 "Some 1" None]
    chat_request_validation [of "replicate 10001 CHR ''a''" 1 "Some 1" None
      "env_with provider_ok" db_history]
    chat_request_validation [of "''''" 1 "Some 1" None "env_with provider_ok" db_history]
    chat_request_validation [of "''Hello''" "3 / 2" "Some 1" None "env_with provider_ok"
      db_history]
  by simp

end
